theory Spec2Isabelle
  imports Complex_Main
begin

section \<open>JavaScript values of a request\<close>

text \<open>
  The service (\<^verbatim>\<open>src/models/Book.js\<close>, which holds the schema and, after the
  separator line, the Express application) receives JSON or URL-encoded bodies and path
  segments. A parsed body is a JavaScript object; its values are the JSON values. A name
  destructured from the body that the body does not have is \<^verbatim>\<open>undefined\<close>.

  A JavaScript number is a double: \<^verbatim>\<open>NaN\<close>, an infinity, or a finite value, which is
  a rational. The two zeros are one value here; no route tells them apart. A text is a
  list of 8-bit characters, read as code units below 256.
\<close>

datatype number = NaN | NegInfinity | Finite rat | PosInfinity

datatype jsval =
    Undefined
  | Null
  | Bool bool
  | Num number
  | Str string
  | Arr "jsval list"
  | Obj "(string \<times> jsval) list"

type_synonym jsobject = "(string \<times> jsval) list"

text \<open>\<^verbatim>\<open>const { title } = req.body\<close>: the property, or \<^verbatim>\<open>undefined\<close>.\<close>

definition get_prop :: "jsobject \<Rightarrow> string \<Rightarrow> jsval" where
  "get_prop body k = (case map_of body k of None \<Rightarrow> Undefined | Some v \<Rightarrow> v)"

text \<open>
  ToBoolean: \<^verbatim>\<open>undefined\<close>, \<^verbatim>\<open>null\<close>, \<^verbatim>\<open>false\<close>, \<^verbatim>\<open>0\<close>, \<^verbatim>\<open>NaN\<close> and the empty text
  are falsy; every array and object is truthy.
\<close>

fun truthy :: "jsval \<Rightarrow> bool" where
  "truthy Undefined = False"
| "truthy Null = False"
| "truthy (Bool b) = b"
| "truthy (Num x) = (x \<noteq> NaN \<and> x \<noteq> Finite 0)"
| "truthy (Str s) = (s \<noteq> [])"
| "truthy (Arr xs) = True"
| "truthy (Obj kvs) = True"

text \<open>\<^verbatim>\<open>typeof v === "boolean"\<close>.\<close>

fun is_boolean :: "jsval \<Rightarrow> bool" where
  "is_boolean (Bool b) = True"
| "is_boolean v = False"

text \<open>
  \<^verbatim>\<open>...(c && { k: v })\<close> inside an object literal: spreading a falsy value adds nothing,
  spreading the one-property object adds the property.
\<close>

definition spread_if :: "bool \<Rightarrow> string \<Rightarrow> jsval \<Rightarrow> jsobject" where
  "spread_if c k v = (if c then [(k, v)] else [])"

subsection \<open>Numbers as doubles\<close>

text \<open>The order of numbers: \<^verbatim>\<open>x < y\<close>, false whenever one side is \<^verbatim>\<open>NaN\<close>.\<close>

fun lt :: "number \<Rightarrow> number \<Rightarrow> bool" where
  "lt NaN y = False"
| "lt x NaN = False"
| "lt NegInfinity y = (y \<noteq> NegInfinity)"
| "lt (Finite a) (Finite b) = (a < b)"
| "lt (Finite a) PosInfinity = True"
| "lt (Finite a) NegInfinity = False"
| "lt PosInfinity y = False"

fun negate :: "number \<Rightarrow> number" where
  "negate NaN = NaN"
| "negate NegInfinity = PosInfinity"
| "negate (Finite q) = Finite (- q)"
| "negate PosInfinity = NegInfinity"

fun bit_length :: "nat \<Rightarrow> nat" where
  "bit_length n = (if n = 0 then 0 else Suc (bit_length (n div 2)))"

definition pow2 :: "int \<Rightarrow> rat" where
  "pow2 e = (if 0 \<le> e then 2 ^ nat e else 1 / 2 ^ nat (- e))"

definition pow10 :: "int \<Rightarrow> rat" where
  "pow10 e = (if 0 \<le> e then 10 ^ nat e else 1 / 10 ^ nat (- e))"

text \<open>Rounding to the nearest integer, a tie to the even one.\<close>

definition round_half_even :: "rat \<Rightarrow> int" where
  "round_half_even q =
     (let f = \<lfloor>q\<rfloor>; d = q - of_int f
      in if d < 1 / 2 then f else if 1 / 2 < d then f + 1 else if even f then f else f + 1)"

text \<open>For \<open>0 < q\<close>, the \<open>l\<close> with \<open>2 ^ l \<le> q < 2 ^ (l + 1)\<close>.\<close>

definition floor_log2 :: "rat \<Rightarrow> int" where
  "floor_log2 q =
     (let (a, b) = quotient_of q;
          d = int (bit_length (nat a)) - int (bit_length (nat b))
      in if pow2 d \<le> q then d else d - 1)"

text \<open>
  The double nearest to a rational (IEEE 754 binary64, round to nearest, ties to even):
  53 significant bits, the least exponent of the last bit is -1074, and what rounds to
  \<open>2 ^ 1024\<close> or more is infinite.
\<close>

definition round_positive :: "rat \<Rightarrow> number" where
  "round_positive q =
     (let e = max (floor_log2 q - 52) (- 1074);
          v = of_int (round_half_even (q / pow2 e)) * pow2 e
      in if 2 ^ 1024 \<le> v then PosInfinity else Finite v)"

definition to_double :: "rat \<Rightarrow> number" where
  "to_double q =
     (if q = 0 then Finite 0
      else if 0 < q then round_positive q
      else negate (round_positive (- q)))"

subsection \<open>Texts: white space, trimming, numerals\<close>

text \<open>
  The white space and line terminators of ECMAScript that are code units below 256:
  tab, line feed, vertical tab, form feed, carriage return, space, no-break space.
\<close>

definition is_ws :: "char \<Rightarrow> bool" where
  "is_ws c = (of_char c \<in> {9, 10, 11, 12, 13, 32, 160 :: nat})"

text \<open>\<^verbatim>\<open>String.prototype.trim\<close>.\<close>

definition trim :: "string \<Rightarrow> string" where
  "trim s = rev (dropWhile is_ws (rev (dropWhile is_ws s)))"

text \<open>The value of a character as a digit of a radix up to 36, letters in either case.\<close>

definition digit_val :: "nat \<Rightarrow> char \<Rightarrow> nat option" where
  "digit_val radix c =
     (let n = (of_char c :: nat);
          d = (if 48 \<le> n \<and> n \<le> 57 then Some (n - 48)
               else if 97 \<le> n \<and> n \<le> 122 then Some (n - 87)
               else if 65 \<le> n \<and> n \<le> 90 then Some (n - 55)
               else None)
      in case d of None \<Rightarrow> None | Some v \<Rightarrow> if v < radix then Some v else None)"

definition is_digit :: "nat \<Rightarrow> char \<Rightarrow> bool" where
  "is_digit radix c = (digit_val radix c \<noteq> None)"

text \<open>A non-empty run of digits of the radix.\<close>

definition all_digits :: "nat \<Rightarrow> string \<Rightarrow> bool" where
  "all_digits radix ds = (ds \<noteq> [] \<and> list_all (is_digit radix) ds)"

text \<open>The value of a run of digits in a radix, most significant digit first.\<close>

definition digits_value :: "nat \<Rightarrow> string \<Rightarrow> nat" where
  "digits_value radix ds =
     foldl (\<lambda>acc c. acc * radix + (case digit_val radix c of None \<Rightarrow> 0 | Some d \<Rightarrow> d)) 0 ds"

text \<open>
  \<^verbatim>\<open>parseInt(s)\<close> with no radix: leading white space is skipped, a sign is read, a
  prefix \<^verbatim>\<open>0x\<close> or \<^verbatim>\<open>0X\<close> selects radix 16, and the longest run of digits that follows
  is the value, rounded to a double; whatever comes after the run is ignored. With no
  digit the result is \<^verbatim>\<open>NaN\<close>.
\<close>

definition parseInt :: "string \<Rightarrow> number" where
  "parseInt s =
     (let t = dropWhile is_ws s;
          neg = (t \<noteq> [] \<and> hd t = CHR ''-'');
          u = (if t \<noteq> [] \<and> (hd t = CHR ''-'' \<or> hd t = CHR ''+'') then tl t else t);
          hex = (take 2 u = ''0x'' \<or> take 2 u = ''0X'');
          w = (if hex then drop 2 u else u);
          radix = (if hex then 16 else 10);
          z = takeWhile (is_digit radix) w;
          n = to_double (of_int (int (digits_value radix z)))
      in if z = [] then NaN else if neg then negate n else n)"

text \<open>
  \<^verbatim>\<open>Number(s)\<close> on a text (StringToNumber). Surrounding white space is dropped. The empty
  text is 0. A prefix \<^verbatim>\<open>0x\<close>, \<^verbatim>\<open>0o\<close> or \<^verbatim>\<open>0b\<close> (either case) with digits of its radix
  and no sign is an integer. Otherwise an optional sign precedes \<^verbatim>\<open>Infinity\<close> or a
  decimal numeral: digits with an optional point, at least one digit before or after it,
  and an optional exponent \<^verbatim>\<open>e\<close> or \<^verbatim>\<open>E\<close> with an optional sign and digits. The value
  is rounded to a double. Any other text is \<^verbatim>\<open>NaN\<close>.
\<close>

definition signed_integer :: "string \<Rightarrow> int option" where
  "signed_integer s =
     (let neg = (s \<noteq> [] \<and> hd s = CHR ''-'');
          u = (if s \<noteq> [] \<and> (hd s = CHR ''-'' \<or> hd s = CHR ''+'') then tl s else s)
      in if all_digits 10 u
         then Some (if neg then - int (digits_value 10 u) else int (digits_value 10 u))
         else None)"

definition unsigned_decimal :: "string \<Rightarrow> rat option" where
  "unsigned_decimal s =
     (let m = takeWhile (\<lambda>c. c \<noteq> CHR ''e'' \<and> c \<noteq> CHR ''E'') s;
          x = drop (length m) s;
          ip = takeWhile (\<lambda>c. c \<noteq> CHR ''.'') m;
          fp = drop (Suc (length ip)) m;
          well = ((ip = [] \<or> all_digits 10 ip) \<and> (fp = [] \<or> all_digits 10 fp)
                  \<and> (ip \<noteq> [] \<or> fp \<noteq> []));
          ex = (if x = [] then Some 0 else signed_integer (tl x))
      in if \<not> well then None
         else case ex of
                None \<Rightarrow> None
              | Some k \<Rightarrow>
                  Some (of_int (int (digits_value 10 (ip @ fp))) * pow10 (k - int (length fp))))"

definition StringToNumber :: "string \<Rightarrow> number" where
  "StringToNumber s =
     (let t = trim s;
          neg = (t \<noteq> [] \<and> hd t = CHR ''-'');
          u = (if t \<noteq> [] \<and> (hd t = CHR ''-'' \<or> hd t = CHR ''+'') then tl t else t);
          p = take 2 t;
          r = drop 2 t
      in if t = [] then Finite 0
         else if p = ''0x'' \<or> p = ''0X''
           then (if all_digits 16 r then to_double (of_int (int (digits_value 16 r))) else NaN)
         else if p = ''0o'' \<or> p = ''0O''
           then (if all_digits 8 r then to_double (of_int (int (digits_value 8 r))) else NaN)
         else if p = ''0b'' \<or> p = ''0B''
           then (if all_digits 2 r then to_double (of_int (int (digits_value 2 r))) else NaN)
         else if u = ''Infinity'' then (if neg then NegInfinity else PosInfinity)
         else case unsigned_decimal u of
                None \<Rightarrow> NaN
              | Some q \<Rightarrow> if neg then negate (to_double q) else to_double q)"

text \<open>
  \<^verbatim>\<open>Number.prototype.toString\<close> in radix 10. For a positive finite \<open>v\<close> it takes the
  least number \<open>k\<close> of digits for which some \<open>s\<close> of \<open>k\<close> digits and some \<open>n\<close> give
  \<open>s * 10 ^ (n - k)\<close> the double \<open>v\<close>, among them the \<open>s\<close> whose value is nearest to \<open>v\<close>
  (the even one on a tie), and writes the digits plainly when \<open>-6 < n \<le> 21\<close> and with an
  exponent otherwise. Seventeen digits always suffice.
\<close>

fun show_nat :: "nat \<Rightarrow> string" where
  "show_nat n =
     (if n < 10 then [char_of (48 + n)] else show_nat (n div 10) @ [char_of (48 + n mod 10)])"

text \<open>For \<open>0 < q\<close>, the \<open>l\<close> with \<open>10 ^ l \<le> q < 10 ^ (l + 1)\<close>.\<close>

definition floor_log10 :: "rat \<Rightarrow> int" where
  "floor_log10 q =
     (if 1 \<le> q then int (length (show_nat (nat \<lfloor>q\<rfloor>))) - 1
      else - int (length (show_nat (nat (\<lceil>1 / q\<rceil> - 1)))))"

text \<open>The pairs \<open>(n, s)\<close> with \<open>s\<close> of exactly \<open>k\<close> digits that denote the double \<open>v\<close>.\<close>

definition candidates :: "rat \<Rightarrow> nat \<Rightarrow> (int \<times> int) list" where
  "candidates v k =
     (let n = floor_log10 v + 1;
          x = v * pow10 (int k - n);
          lo = \<lfloor>x\<rfloor>;
          hi = \<lceil>x\<rceil>;
          norm = (\<lambda>s. if s = 10 ^ k then (n + 1, 10 ^ (k - 1)) else (n, s));
          ok = (\<lambda>(n', s). 10 ^ (k - 1) \<le> s \<and> s < 10 ^ k
                  \<and> to_double (of_int s * pow10 (n' - int k)) = Finite v)
      in filter ok (map norm (if lo = hi then [lo] else [lo, hi])))"

definition closest :: "rat \<Rightarrow> nat \<Rightarrow> (int \<times> int) list \<Rightarrow> int \<times> int" where
  "closest v k cs =
     (case cs of
        [c] \<Rightarrow> c
      | [(n1, s1), (n2, s2)] \<Rightarrow>
          (let d1 = \<bar>of_int s1 * pow10 (n1 - int k) - v\<bar>;
               d2 = \<bar>of_int s2 * pow10 (n2 - int k) - v\<bar>
           in if d1 < d2 then (n1, s1) else if d2 < d1 then (n2, s2)
              else if even s1 then (n1, s1) else (n2, s2))
      | _ \<Rightarrow> (0, 0))"

text \<open>The search for the least \<open>k\<close>, from \<open>k\<close> upwards, over at most \<open>fuel\<close> lengths.\<close>

fun shortest :: "rat \<Rightarrow> nat \<Rightarrow> nat \<Rightarrow> int \<times> nat \<times> int" where
  "shortest v k 0 = (0, k, 0)"
| "shortest v k (Suc fuel) =
     (case candidates v k of
        [] \<Rightarrow> shortest v (Suc k) fuel
      | cs \<Rightarrow> (case closest v k cs of (n, s) \<Rightarrow> (n, k, s)))"

definition show_positive :: "rat \<Rightarrow> string" where
  "show_positive v =
     (case shortest v 1 17 of (n, k, s) \<Rightarrow>
        (let ds = show_nat (nat s);
             ee = show_nat (nat \<bar>n - 1\<bar>);
             sg = (if n - 1 < 0 then ''-'' else ''+'')
         in if int k \<le> n \<and> n \<le> 21 then ds @ replicate (nat (n - int k)) CHR ''0''
            else if 0 < n \<and> n \<le> 21 then take (nat n) ds @ ''.'' @ drop (nat n) ds
            else if - 6 < n \<and> n \<le> 0 then ''0.'' @ replicate (nat (- n)) CHR ''0'' @ ds
            else if k = 1 then ds @ ''e'' @ sg @ ee
            else take 1 ds @ ''.'' @ drop 1 ds @ ''e'' @ sg @ ee))"

fun Number_toString :: "number \<Rightarrow> string" where
  "Number_toString NaN = ''NaN''"
| "Number_toString PosInfinity = ''Infinity''"
| "Number_toString NegInfinity = ''-Infinity''"
| "Number_toString (Finite q) =
     (if q = 0 then ''0'' else if q < 0 then ''-'' @ show_positive (- q) else show_positive q)"

section \<open>The Book schema and the stored collection\<close>

text \<open>
  \<^verbatim>\<open>bookSchema\<close> (lines 3 to 27): title, author and genre are \<^verbatim>\<open>String\<close>, required and
  trimmed; publicationYear is a required \<^verbatim>\<open>Number\<close>; available is a \<^verbatim>\<open>Boolean\<close> with
  default \<^verbatim>\<open>true\<close>; \<^verbatim>\<open>timestamps: true\<close> adds createdAt and updatedAt. The identifier
  \<^verbatim>\<open>_id\<close> is an ObjectId, written as 24 lower-case hexadecimal digits.

  A stored document keeps each path as an option: \<open>None\<close> is a path without a value.
  Only for \<^verbatim>\<open>available\<close> does the code ask whether the path exists at all
  (\<^verbatim>\<open>$exists: false\<close>, line 172), so only there a stored \<^verbatim>\<open>null\<close> is told apart from an
  absent path. Times are milliseconds.

  A document read through \<^verbatim>\<open>Book.find\<close> or \<^verbatim>\<open>Book.findOne\<close> is hydrated: a path the
  stored document lacks receives the schema default. Only \<^verbatim>\<open>available\<close> has one.
\<close>

type_synonym objectid = string

datatype flag = NullFlag | Flag bool

record book =
  oid :: objectid
  title :: "string option"
  author :: "string option"
  genre :: "string option"
  publicationYear :: "number option"
  available :: "flag option"
  createdAt :: "nat option"
  updatedAt :: "nat option"

type_synonym collection = "book list"

definition hydrate :: "book \<Rightarrow> book" where
  "hydrate r = (if available r = None then r\<lparr>available := Some (Flag True)\<rparr> else r)"

datatype db_error = ValidationError | CastError | DuplicateKey

subsection \<open>Casting to the schema's types\<close>

text \<open>
  A cast leaves \<^verbatim>\<open>null\<close> and \<^verbatim>\<open>undefined\<close> alone (\<open>Nullish\<close>), yields a value of the
  schema type (\<open>Cast\<close>) or fails (\<open>CastFail\<close>).
\<close>

datatype 'a cast = Nullish | Cast 'a | CastFail

text \<open>
  To \<^verbatim>\<open>String\<close>: a text is itself, a number and a boolean are their \<^verbatim>\<open>toString()\<close>, an
  object that carries a non-empty text \<^verbatim>\<open>_id\<close> is that text; an array and any other
  object fail.
\<close>

fun castString :: "jsval \<Rightarrow> string cast" where
  "castString Undefined = Nullish"
| "castString Null = Nullish"
| "castString (Bool b) = Cast (if b then ''true'' else ''false'')"
| "castString (Num x) = Cast (Number_toString x)"
| "castString (Str s) = Cast s"
| "castString (Arr xs) = CastFail"
| "castString (Obj kvs) =
     (case map_of kvs ''_id'' of
        Some (Str s) \<Rightarrow> if s \<noteq> [] then Cast s else CastFail
      | _ \<Rightarrow> CastFail)"

text \<open>
  A path declared \<^verbatim>\<open>trim: true\<close> has a setter that trims the cast text. Setters run
  whenever a value is set on the path: in a new document, in an update and in a query
  filter.
\<close>

definition set_String_trim :: "jsval \<Rightarrow> string cast" where
  "set_String_trim v = (case castString v of Cast s \<Rightarrow> Cast (trim s) | c \<Rightarrow> c)"

text \<open>
  To \<^verbatim>\<open>Number\<close>: the empty text is \<^verbatim>\<open>null\<close>, any other text and a boolean go through
  \<^verbatim>\<open>Number(v)\<close>, \<^verbatim>\<open>NaN\<close> fails, every other number is itself. Arrays and objects
  fail.
\<close>

fun castNumber :: "jsval \<Rightarrow> number cast" where
  "castNumber Undefined = Nullish"
| "castNumber Null = Nullish"
| "castNumber (Bool b) = Cast (Finite (if b then 1 else 0))"
| "castNumber (Num x) = (if x = NaN then CastFail else Cast x)"
| "castNumber (Str s) =
     (if s = [] then Nullish
      else if StringToNumber s = NaN then CastFail else Cast (StringToNumber s))"
| "castNumber (Arr xs) = CastFail"
| "castNumber (Obj kvs) = CastFail"

text \<open>
  To \<^verbatim>\<open>Boolean\<close>: \<^verbatim>\<open>true\<close>, \<^verbatim>\<open>'true'\<close>, \<^verbatim>\<open>1\<close>, \<^verbatim>\<open>'1'\<close>, \<^verbatim>\<open>'yes'\<close> are true;
  \<^verbatim>\<open>false\<close>, \<^verbatim>\<open>'false'\<close>, \<^verbatim>\<open>0\<close>, \<^verbatim>\<open>'0'\<close>, \<^verbatim>\<open>'no'\<close> are false; anything else that is
  not nullish fails.
\<close>

fun castBoolean :: "jsval \<Rightarrow> bool cast" where
  "castBoolean Undefined = Nullish"
| "castBoolean Null = Nullish"
| "castBoolean (Bool b) = Cast b"
| "castBoolean (Num x) =
     (if x = Finite 1 then Cast True else if x = Finite 0 then Cast False else CastFail)"
| "castBoolean (Str s) =
     (if s \<in> {''true'', ''1'', ''yes''} then Cast True
      else if s \<in> {''false'', ''0'', ''no''} then Cast False
      else CastFail)"
| "castBoolean (Arr xs) = CastFail"
| "castBoolean (Obj kvs) = CastFail"

text \<open>
  To ObjectId, from a path segment: exactly 24 hexadecimal digits, upper or lower case,
  name the twelve bytes; any other text fails.
\<close>

definition lower_hex :: "char \<Rightarrow> char" where
  "lower_hex c = (case map_of (zip ''ABCDEF'' ''abcdef'') c of None \<Rightarrow> c | Some d \<Rightarrow> d)"

definition castObjectId :: "string \<Rightarrow> objectid option" where
  "castObjectId s =
     (if length s = 24 \<and> list_all (is_digit 16) s then Some (map lower_hex s) else None)"

subsection \<open>Query filters\<close>

text \<open>
  The filters the routes pass to the model: none (line 93), \<^verbatim>\<open>{ genre }\<close> (105),
  \<^verbatim>\<open>{ title }\<close> (118), \<^verbatim>\<open>{ _id: req.params.id }\<close> (137, 159),
  \<^verbatim>\<open>{ available: { $exists: false } }\<close> (172) and
  \<^verbatim>\<open>{ publicationYear: { $lt: year } }\<close> (187), where \<^verbatim>\<open>year\<close> may be \<^verbatim>\<open>NaN\<close>.
\<close>

datatype filter =
    F_all
  | F_genre string
  | F_title string
  | F_id string
  | F_available_exists bool
  | F_publicationYear_lt number

text \<open>
  A filter is cast against the schema before it is sent: texts on trimmed paths are
  trimmed, the identifier must be an ObjectId, the bound of a comparison must be a
  number. What remains is the condition a stored document has to meet.
\<close>

fun castConditions :: "filter \<Rightarrow> db_error + (book \<Rightarrow> bool)" where
  "castConditions F_all = Inr (\<lambda>r. True)"
| "castConditions (F_genre g) = Inr (\<lambda>r. genre r = Some (trim g))"
| "castConditions (F_title t) = Inr (\<lambda>r. title r = Some (trim t))"
| "castConditions (F_id s) =
     (case castObjectId s of None \<Rightarrow> Inl CastError | Some i \<Rightarrow> Inr (\<lambda>r. oid r = i))"
| "castConditions (F_available_exists b) = Inr (\<lambda>r. (available r \<noteq> None) = b)"
| "castConditions (F_publicationYear_lt y) =
     (if y = NaN then Inl CastError
      else Inr (\<lambda>r. case publicationYear r of None \<Rightarrow> False | Some x \<Rightarrow> lt x y))"

subsection \<open>Casting an update\<close>

text \<open>
  One entry of a \<^verbatim>\<open>$set\<close> document, cast by the type of its path. A path the schema does
  not declare is dropped (strict mode).
\<close>

definition set_path :: "string \<Rightarrow> jsval \<Rightarrow> db_error + (book \<Rightarrow> book)" where
  "set_path k v =
     (if k = ''title'' then
        (case set_String_trim v of
           CastFail \<Rightarrow> Inl CastError
         | Nullish \<Rightarrow> Inr (\<lambda>r. r\<lparr>title := None\<rparr>)
         | Cast s \<Rightarrow> Inr (\<lambda>r. r\<lparr>title := Some s\<rparr>))
      else if k = ''author'' then
        (case set_String_trim v of
           CastFail \<Rightarrow> Inl CastError
         | Nullish \<Rightarrow> Inr (\<lambda>r. r\<lparr>author := None\<rparr>)
         | Cast s \<Rightarrow> Inr (\<lambda>r. r\<lparr>author := Some s\<rparr>))
      else if k = ''genre'' then
        (case set_String_trim v of
           CastFail \<Rightarrow> Inl CastError
         | Nullish \<Rightarrow> Inr (\<lambda>r. r\<lparr>genre := None\<rparr>)
         | Cast s \<Rightarrow> Inr (\<lambda>r. r\<lparr>genre := Some s\<rparr>))
      else if k = ''publicationYear'' then
        (case castNumber v of
           CastFail \<Rightarrow> Inl CastError
         | Nullish \<Rightarrow> Inr (\<lambda>r. r\<lparr>publicationYear := None\<rparr>)
         | Cast n \<Rightarrow> Inr (\<lambda>r. r\<lparr>publicationYear := Some n\<rparr>))
      else if k = ''available'' then
        (case castBoolean v of
           CastFail \<Rightarrow> Inl CastError
         | Nullish \<Rightarrow> Inr (\<lambda>r. r\<lparr>available := Some NullFlag\<rparr>)
         | Cast b \<Rightarrow> Inr (\<lambda>r. r\<lparr>available := Some (Flag b)\<rparr>))
      else Inr (\<lambda>r. r))"

fun castUpdate :: "jsobject \<Rightarrow> db_error + (book \<Rightarrow> book)" where
  "castUpdate [] = Inr (\<lambda>r. r)"
| "castUpdate ((k, v) # kvs) =
     (case set_path k v of
        Inl e \<Rightarrow> Inl e
      | Inr f \<Rightarrow> (case castUpdate kvs of Inl e \<Rightarrow> Inl e | Inr g \<Rightarrow> Inr (\<lambda>r. g (f r))))"

text \<open>
  With \<^verbatim>\<open>timestamps: true\<close> every update operation also sets \<^verbatim>\<open>updatedAt\<close> to the
  current time.
\<close>

definition applyTimestampsToUpdate :: "nat \<Rightarrow> (book \<Rightarrow> book) \<Rightarrow> book \<Rightarrow> book" where
  "applyTimestampsToUpdate now f r = (f r)\<lparr>updatedAt := Some now\<rparr>"

subsection \<open>The model's operations on the collection\<close>

text \<open>
  The collection is the list of its documents in natural order; a new document goes to
  the end. Operations on one document take the first that meets the condition. The two
  read operations answer hydrated documents and leave the stored ones as they are.
\<close>

fun update_first :: "(book \<Rightarrow> bool) \<Rightarrow> (book \<Rightarrow> book) \<Rightarrow> collection \<Rightarrow> collection" where
  "update_first p f [] = []"
| "update_first p f (r # rs) = (if p r then f r # rs else r # update_first p f rs)"

fun delete_first :: "(book \<Rightarrow> bool) \<Rightarrow> collection \<Rightarrow> collection" where
  "delete_first p [] = []"
| "delete_first p (r # rs) = (if p r then rs else r # delete_first p rs)"

definition Book_find :: "filter \<Rightarrow> collection \<Rightarrow> db_error + book list" where
  "Book_find flt st =
     (case castConditions flt of
        Inl e \<Rightarrow> Inl e
      | Inr p \<Rightarrow> Inr (map hydrate (filter p st)))"

definition Book_findOne :: "filter \<Rightarrow> collection \<Rightarrow> db_error + book option" where
  "Book_findOne flt st =
     (case castConditions flt of
        Inl e \<Rightarrow> Inl e
      | Inr p \<Rightarrow> Inr (map_option hydrate (find p st)))"

text \<open>The result of an update: matchedCount and modifiedCount, and the new collection.\<close>

definition Book_updateOne ::
  "nat \<Rightarrow> filter \<Rightarrow> jsobject \<Rightarrow> collection \<Rightarrow> db_error + (nat \<times> nat) \<times> collection" where
  "Book_updateOne now flt set_doc st =
     (case castConditions flt of
        Inl e \<Rightarrow> Inl e
      | Inr p \<Rightarrow>
          (case castUpdate set_doc of
             Inl e \<Rightarrow> Inl e
           | Inr f \<Rightarrow>
               (let g = applyTimestampsToUpdate now f in
                case find p st of
                  None \<Rightarrow> Inr ((0, 0), st)
                | Some r \<Rightarrow> Inr ((1, if g r = r then 0 else 1), update_first p g st))))"

definition Book_updateMany ::
  "nat \<Rightarrow> filter \<Rightarrow> jsobject \<Rightarrow> collection \<Rightarrow> db_error + (nat \<times> nat) \<times> collection" where
  "Book_updateMany now flt set_doc st =
     (case castConditions flt of
        Inl e \<Rightarrow> Inl e
      | Inr p \<Rightarrow>
          (case castUpdate set_doc of
             Inl e \<Rightarrow> Inl e
           | Inr f \<Rightarrow>
               (let g = applyTimestampsToUpdate now f in
                Inr ((length (filter p st), length (filter (\<lambda>r. p r \<and> g r \<noteq> r) st)),
                     map (\<lambda>r. if p r then g r else r) st))))"

text \<open>The result of a deletion: deletedCount and the new collection.\<close>

definition Book_deleteOne :: "filter \<Rightarrow> collection \<Rightarrow> db_error + nat \<times> collection" where
  "Book_deleteOne flt st =
     (case castConditions flt of
        Inl e \<Rightarrow> Inl e
      | Inr p \<Rightarrow>
          (case find p st of None \<Rightarrow> Inr (0, st) | Some r \<Rightarrow> Inr (1, delete_first p st)))"

text \<open>
  \<^verbatim>\<open>Book.create(obj)\<close> builds a document from the schema, validates it and inserts it.
  Building: every value goes through its path's setter and cast; a default is applied
  only where the value is \<^verbatim>\<open>undefined\<close>. Validating: a failed cast is a validation
  error; a required text must be a non-empty text, a required number a number. The
  document receives the identifier \<open>nid\<close> generated for it and both timestamps.
\<close>

definition required_String :: "jsval \<Rightarrow> db_error + string" where
  "required_String v =
     (case set_String_trim v of
        Cast s \<Rightarrow> if s = [] then Inl ValidationError else Inr s
      | _ \<Rightarrow> Inl ValidationError)"

definition required_Number :: "jsval \<Rightarrow> db_error + number" where
  "required_Number v = (case castNumber v of Cast n \<Rightarrow> Inr n | _ \<Rightarrow> Inl ValidationError)"

definition default_true_Boolean :: "jsval \<Rightarrow> db_error + flag" where
  "default_true_Boolean v =
     (if v = Undefined then Inr (Flag True)
      else case castBoolean v of
             Cast b \<Rightarrow> Inr (Flag b)
           | Nullish \<Rightarrow> Inr NullFlag
           | CastFail \<Rightarrow> Inl ValidationError)"

definition new_document :: "nat \<Rightarrow> objectid \<Rightarrow> jsobject \<Rightarrow> db_error + book" where
  "new_document now nid obj =
     (case required_String (get_prop obj ''title'') of
        Inl e \<Rightarrow> Inl e
      | Inr t \<Rightarrow>
     (case required_String (get_prop obj ''author'') of
        Inl e \<Rightarrow> Inl e
      | Inr a \<Rightarrow>
     (case required_String (get_prop obj ''genre'') of
        Inl e \<Rightarrow> Inl e
      | Inr g \<Rightarrow>
     (case required_Number (get_prop obj ''publicationYear'') of
        Inl e \<Rightarrow> Inl e
      | Inr y \<Rightarrow>
     (case default_true_Boolean (get_prop obj ''available'') of
        Inl e \<Rightarrow> Inl e
      | Inr av \<Rightarrow>
          Inr \<lparr>oid = nid, title = Some t, author = Some a, genre = Some g,
               publicationYear = Some y, available = Some av,
               createdAt = Some now, updatedAt = Some now\<rparr>)))))"

definition Book_create ::
  "nat \<Rightarrow> objectid \<Rightarrow> jsobject \<Rightarrow> collection \<Rightarrow> db_error + book \<times> collection" where
  "Book_create now nid obj st =
     (case new_document now nid obj of
        Inl e \<Rightarrow> Inl e
      | Inr b \<Rightarrow> if nid \<in> oid ` set st then Inl DuplicateKey else Inr (b, st @ [b]))"

section \<open>The routes\<close>

text \<open>
  A response is a status and a JSON payload; \<^verbatim>\<open>res.json\<close> without \<^verbatim>\<open>res.status\<close>
  answers 200. Every route returns its response and the collection it leaves behind. A
  rejected promise of the model is caught by the route's \<^verbatim>\<open>catch\<close>, which answers 500.
  The clock \<open>now\<close> and the generated identifier \<open>nid\<close> are inputs of the routes that
  use them.
\<close>

datatype payload =
    NewBook string book
  | Books "book list"
  | OneBook book
  | Message string
  | Error string
  | UpdateResult nat nat
  | DeleteResult nat

datatype response = Response (status: nat) (json: payload)

text \<open>Lines 68 to 88. The message is the source's, without its leading symbol.\<close>

definition post_books ::
  "nat \<Rightarrow> objectid \<Rightarrow> collection \<Rightarrow> jsobject \<Rightarrow> response \<times> collection" where
  "post_books now nid st body =
     (let title = get_prop body ''title'';
          author = get_prop body ''author'';
          genre = get_prop body ''genre'';
          publicationYear = get_prop body ''publicationYear'';
          available = get_prop body ''available''
      in case Book_create now nid
                [(''title'', title), (''author'', author), (''genre'', genre),
                 (''publicationYear'', publicationYear), (''available'', available)] st of
           Inr (newBook, st') \<Rightarrow> (Response 201 (NewBook ''New book added'' newBook), st')
         | Inl err \<Rightarrow> (Response 500 (Error ''Error adding book''), st))"

text \<open>Lines 91 to 99.\<close>

definition get_books :: "collection \<Rightarrow> response \<times> collection" where
  "get_books st =
     (case Book_find F_all st of
        Inr books \<Rightarrow> (Response 200 (Books books), st)
      | Inl err \<Rightarrow> (Response 500 (Error ''Error fetching books''), st))"

text \<open>Lines 102 to 112.\<close>

definition get_books_genre :: "collection \<Rightarrow> string \<Rightarrow> response \<times> collection" where
  "get_books_genre st genre_segment =
     (case Book_find (F_genre genre_segment) st of
        Inr books \<Rightarrow> (Response 200 (Books books), st)
      | Inl err \<Rightarrow> (Response 500 (Error ''Error fetching by genre''), st))"

text \<open>Lines 115 to 129.\<close>

definition get_books_title :: "collection \<Rightarrow> string \<Rightarrow> response \<times> collection" where
  "get_books_title st title_segment =
     (case Book_findOne (F_title title_segment) st of
        Inr None \<Rightarrow> (Response 404 (Message ''Book not found''), st)
      | Inr (Some book) \<Rightarrow> (Response 200 (OneBook book), st)
      | Inl err \<Rightarrow> (Response 500 (Error ''Error searching by title''), st))"

text \<open>Lines 132 to 154. \<open>put_set\<close> is the \<^verbatim>\<open>$set\<close> object of lines 139 to 145.\<close>

definition put_set :: "jsobject \<Rightarrow> jsobject" where
  "put_set body =
     (let genre = get_prop body ''genre'';
          available = get_prop body ''available'';
          publicationYear = get_prop body ''publicationYear'';
          title = get_prop body ''title'';
          author = get_prop body ''author''
      in spread_if (truthy genre) ''genre'' genre
       @ spread_if (is_boolean available) ''available'' available
       @ spread_if (truthy publicationYear) ''publicationYear'' publicationYear
       @ spread_if (truthy title) ''title'' title
       @ spread_if (truthy author) ''author'' author)"

definition put_books_id ::
  "nat \<Rightarrow> collection \<Rightarrow> string \<Rightarrow> jsobject \<Rightarrow> response \<times> collection" where
  "put_books_id now st id_segment body =
     (case Book_updateOne now (F_id id_segment) (put_set body) st of
        Inr ((matched, modified), st') \<Rightarrow> (Response 200 (UpdateResult matched modified), st')
      | Inl err \<Rightarrow> (Response 500 (Error ''Error updating book''), st))"

text \<open>Lines 157 to 165.\<close>

definition delete_books_id :: "collection \<Rightarrow> string \<Rightarrow> response \<times> collection" where
  "delete_books_id st id_segment =
     (case Book_deleteOne (F_id id_segment) st of
        Inr (deleted, st') \<Rightarrow> (Response 200 (DeleteResult deleted), st')
      | Inl err \<Rightarrow> (Response 500 (Error ''Error deleting book''), st))"

text \<open>Lines 169 to 181.\<close>

definition post_books_fix_availability :: "nat \<Rightarrow> collection \<Rightarrow> response \<times> collection" where
  "post_books_fix_availability now st =
     (case Book_updateMany now (F_available_exists False) [(''available'', Bool True)] st of
        Inr ((matched, modified), st') \<Rightarrow> (Response 200 (UpdateResult matched modified), st')
      | Inl err \<Rightarrow> (Response 500 (Error ''Error adding availability''), st))"

text \<open>Lines 184 to 194.\<close>

definition get_books_before :: "collection \<Rightarrow> string \<Rightarrow> response \<times> collection" where
  "get_books_before st year_segment =
     (let year = parseInt year_segment
      in case Book_find (F_publicationYear_lt year) st of
           Inr books \<Rightarrow> (Response 200 (Books books), st)
         | Inl err \<Rightarrow> (Response 500 (Error ''Error fetching books''), st))"

section \<open>Sample documents\<close>

text \<open>Stored documents used where a statement is evaluated on a concrete collection.\<close>

definition book_1988 :: book where
  "book_1988 = \<lparr>oid = ''64b7f0a1c2d3e4f5a6b7c801'', title = Some ''Foucault's Pendulum'',
     author = Some ''Umberto Eco'', genre = Some ''Fiction'', publicationYear = Some (Finite 1988),
     available = Some (Flag True), createdAt = Some 100, updatedAt = Some 100\<rparr>"

definition book_1989 :: book where
  "book_1989 = \<lparr>oid = ''64b7f0a1c2d3e4f5a6b7c802'', title = Some ''The Remains of the Day'',
     author = Some ''Kazuo Ishiguro'', genre = Some ''Fiction'', publicationYear = Some (Finite 1989),
     available = None, createdAt = Some 200, updatedAt = Some 200\<rparr>"

definition book_1965 :: book where
  "book_1965 = \<lparr>oid = ''64b7f0a1c2d3e4f5a6b7c803'', title = Some ''Dune'',
     author = Some ''Frank Herbert'', genre = Some ''Sci-Fi'', publicationYear = Some (Finite 1965),
     available = None, createdAt = Some 300, updatedAt = Some 300\<rparr>"

section \<open>Properties of the routes\<close>

subsection \<open>Books published before a year\<close>

lemma to_double_1989: "to_double 1989 = Finite 1989"
  by (simp add: to_double_def round_positive_def floor_log2_def pow2_def round_half_even_def
      Let_def)

lemma parseInt_1989: "parseInt ''1989'' = Finite 1989"
  by (simp add: parseInt_def is_ws_def is_digit_def digit_val_def digits_value_def Let_def
      to_double_1989)

text \<open>
  C2. \<^verbatim>\<open>GET /books/before/:year\<close>: when \<^verbatim>\<open>parseInt\<close> reads the integer \<open>y\<close> from the path
  segment, the route answers 200 with exactly the stored documents, in stored order, whose
  publicationYear is strictly less than \<open>y\<close>, each hydrated, and leaves
  the collection as it is. A document whose publicationYear is \<open>y\<close> itself is not among
  them.
\<close>

theorem before_year_strictly_less:
  assumes "parseInt year_segment = Finite (of_int y)"
  shows "get_books_before st year_segment =
           (Response 200
              (Books (map hydrate
                 (filter (\<lambda>r. \<exists>x. publicationYear r = Some x \<and> lt x (Finite (of_int y))) st))),
            st)
         \<and> (\<forall>r. publicationYear r = Some (Finite (of_int y)) \<longrightarrow>
               r \<notin> set (filter (\<lambda>r. \<exists>x. publicationYear r = Some x \<and> lt x (Finite (of_int y)))
                            st))"
proof -
  have "filter (\<lambda>r. case publicationYear r of None \<Rightarrow> False | Some x \<Rightarrow> lt x (Finite (of_int y)))
          st
          = filter (\<lambda>r. \<exists>x. publicationYear r = Some x \<and> lt x (Finite (of_int y))) st"
    by (rule filter_cong) (auto split: option.splits)
  with assms show ?thesis
    by (simp add: get_books_before_def Book_find_def)
qed

theorem before_year_strictly_less_witness:
  "parseInt ''1989'' = Finite (of_int 1989)
   \<and> get_books_before [book_1988, book_1989, book_1965] ''1989''
       = (Response 200
            (Books [book_1988, book_1965\<lparr>available := Some (Flag True)\<rparr>]),
          [book_1988, book_1989, book_1965])"
proof -
  have p: "parseInt ''1989'' = Finite (of_int 1989)"
    by (simp add: parseInt_1989)
  from before_year_strictly_less [OF p, of "[book_1988, book_1989, book_1965]"] p
  show ?thesis
    by (simp add: hydrate_def book_1988_def book_1989_def book_1965_def)
qed

subsection \<open>Backfilling availability\<close>

text \<open>
  C3. \<^verbatim>\<open>POST /books/fix-availability\<close>: the first run matches and modifies exactly the
  documents without an \<^verbatim>\<open>available\<close> path, giving each \<^verbatim>\<open>available = true\<close> (and the
  time of the run as \<^verbatim>\<open>updatedAt\<close>) and leaving every other document as it is. A second
  run on the resulting collection, at any time, matches no document, modifies none and
  returns the collection unchanged.
\<close>

theorem fix_availability_idempotent:
  assumes "post_books_fix_availability now st = (resp1, st1)"
      and "post_books_fix_availability now' st1 = (resp2, st2)"
  shows "resp1 = Response 200 (UpdateResult (length (filter (\<lambda>r. available r = None) st))
                                             (length (filter (\<lambda>r. available r = None) st)))
         \<and> length st1 = length st
         \<and> (\<forall>i<length st.
               (available (st ! i) = None \<longrightarrow>
                  st1 ! i = (st ! i)\<lparr>available := Some (Flag True), updatedAt := Some now\<rparr>)
             \<and> (available (st ! i) \<noteq> None \<longrightarrow> st1 ! i = st ! i))
         \<and> resp2 = Response 200 (UpdateResult 0 0)
         \<and> st2 = st1"
proof -
  let ?g = "\<lambda>r. r\<lparr>available := Some (Flag True), updatedAt := Some now\<rparr>"
  let ?p = "\<lambda>r. available r = None"
  have changed: "?p r \<Longrightarrow> ?g r \<noteq> r" for r :: book
    by (cases r) auto
  have st1: "st1 = map (\<lambda>r. if ?p r then ?g r else r) st"
    and resp1: "resp1 = Response 200 (UpdateResult (length (filter ?p st))
                  (length (filter (\<lambda>r. ?p r \<and> ?g r \<noteq> r) st)))"
    using assms(1)
    by (auto simp: post_books_fix_availability_def Book_updateMany_def set_path_def
        applyTimestampsToUpdate_def)
  have "filter (\<lambda>r. ?p r \<and> ?g r \<noteq> r) st = filter ?p st"
    by (rule filter_cong) (auto simp: changed)
  with resp1 have r1: "resp1 = Response 200 (UpdateResult (length (filter ?p st))
                  (length (filter ?p st)))"
    by simp
  have none: "filter ?p st1 = []"
    unfolding st1 by (induction st) auto
  have "st2 = map (\<lambda>r. if ?p r then r\<lparr>available := Some (Flag True), updatedAt := Some now'\<rparr> else r) st1"
    using assms(2)
    by (auto simp: post_books_fix_availability_def Book_updateMany_def set_path_def
        applyTimestampsToUpdate_def)
  moreover have "\<forall>r\<in>set st1. \<not> ?p r"
    using none by (simp add: filter_empty_conv)
  ultimately have st2: "st2 = st1"
    by (simp add: map_idI)
  have resp2: "resp2 = Response 200 (UpdateResult 0 0)"
    using assms(2) none
    by (auto simp: post_books_fix_availability_def Book_updateMany_def set_path_def
        applyTimestampsToUpdate_def filter_empty_conv)
  show ?thesis
    using r1 st2 resp2 by (simp add: st1)
qed

theorem fix_availability_idempotent_witness:
  "post_books_fix_availability 900 [book_1988, book_1989]
     = (Response 200 (UpdateResult 1 1),
        [book_1988, book_1989\<lparr>available := Some (Flag True), updatedAt := Some 900\<rparr>])
   \<and> post_books_fix_availability 901
        [book_1988, book_1989\<lparr>available := Some (Flag True), updatedAt := Some 900\<rparr>]
     = (Response 200 (UpdateResult 0 0),
        [book_1988, book_1989\<lparr>available := Some (Flag True), updatedAt := Some 900\<rparr>])"
proof -
  have a: "post_books_fix_availability 900 [book_1988, book_1989]
     = (Response 200 (UpdateResult 1 1),
        [book_1988, book_1989\<lparr>available := Some (Flag True), updatedAt := Some 900\<rparr>])"
    by (simp add: post_books_fix_availability_def Book_updateMany_def set_path_def
        applyTimestampsToUpdate_def book_1988_def book_1989_def)
  obtain resp2 st2 where b: "post_books_fix_availability 901
        [book_1988, book_1989\<lparr>available := Some (Flag True), updatedAt := Some 900\<rparr>] = (resp2, st2)"
    by (cases "post_books_fix_availability 901
        [book_1988, book_1989\<lparr>available := Some (Flag True), updatedAt := Some 900\<rparr>]")
  from fix_availability_idempotent [OF a b] a b show ?thesis
    by simp
qed


subsection \<open>Facts about the first match and about trimming\<close>

lemma find_first_index:
  "find p st = Some r \<Longrightarrow>
     \<exists>j<length st. st ! j = r \<and> p r \<and> (\<forall>k<j. \<not> p (st ! k)) \<and> update_first p f st = st[j := f r]"
proof (induction st)
  case Nil
  then show ?case by simp
next
  case (Cons a st)
  show ?case
  proof (cases "p a")
    case True
    with Cons.prems have "a = r" by simp
    with True show ?thesis by (intro exI [of _ 0]) simp
  next
    case False
    with Cons.prems have "find p st = Some r" by simp
    from Cons.IH [OF this] obtain j where j: "j < length st" "st ! j = r" "p r"
      "\<forall>k<j. \<not> p (st ! k)" "update_first p f st = st[j := f r]"
      by blast
    have "\<forall>k<Suc j. \<not> p ((a # st) ! k)"
      using False j(4) by (auto simp: less_Suc_eq_0_disj)
    with j False show ?thesis by (intro exI [of _ "Suc j"]) simp
  qed
qed

lemma dropWhile_id: "xs = [] \<or> \<not> p (hd xs) \<Longrightarrow> dropWhile p xs = xs"
  by (cases xs) auto

lemma trim_trim: "trim (trim s) = trim s"
proof -
  define u where "u = dropWhile is_ws s"
  define v where "v = dropWhile is_ws (rev u)"
  have u: "u = [] \<or> \<not> is_ws (hd u)"
    unfolding u_def by (metis hd_dropWhile)
  have v: "v = [] \<or> \<not> is_ws (hd v)"
    unfolding v_def by (metis hd_dropWhile)
  have "rev v = [] \<or> \<not> is_ws (hd (rev v))"
  proof (cases "v = []")
    case True
    then show ?thesis by simp
  next
    case False
    then obtain w where w: "rev u = w @ v"
      unfolding v_def by (metis takeWhile_dropWhile_id)
    from False w have "u \<noteq> []" by auto
    have "hd (rev v) = last v" using False by (simp add: hd_rev)
    also have "\<dots> = last (rev u)" using False w by simp
    also have "\<dots> = hd u" using \<open>u \<noteq> []\<close> by (simp add: last_rev)
    finally show ?thesis using u \<open>u \<noteq> []\<close> by simp
  qed
  then have "dropWhile is_ws (rev v) = rev v" by (rule dropWhile_id)
  moreover have "dropWhile is_ws v = v" using v by (rule dropWhile_id)
  ultimately show ?thesis
    by (simp add: trim_def u_def [symmetric] v_def [symmetric])
qed

lemma find_append_last:
  "\<forall>r\<in>set st. \<not> p r \<Longrightarrow> p b \<Longrightarrow> find p (st @ [b]) = Some b"
  by (induction st) auto

subsection \<open>Looking a title up\<close>

text \<open>
  C4, as amended. \<^verbatim>\<open>GET /books/title/:title\<close>: the path segment is trimmed by the
  \<^verbatim>\<open>trim: true\<close> setter of the title path before it is compared. If no stored document
  has the trimmed segment as its title, the answer is 404 with the message body; otherwise
  it is 200 with the first stored document whose title is the trimmed segment, hydrated.
  The collection is left as it is. For a segment without surrounding white space the
  trimmed segment is the segment.
\<close>

theorem title_lookup_first_match:
  "((\<forall>r\<in>set st. title r \<noteq> Some (trim title_segment)) \<longrightarrow>
      get_books_title st title_segment = (Response 404 (Message ''Book not found''), st))
   \<and> ((\<exists>r\<in>set st. title r = Some (trim title_segment)) \<longrightarrow>
      (\<exists>j<length st. title (st ! j) = Some (trim title_segment)
          \<and> (\<forall>k<j. title (st ! k) \<noteq> Some (trim title_segment))
          \<and> get_books_title st title_segment
              = (Response 200 (OneBook (hydrate (st ! j))), st)))"
proof (cases "find (\<lambda>r. title r = Some (trim title_segment)) st")
  case None
  then have "\<forall>r\<in>set st. title r \<noteq> Some (trim title_segment)"
    by (simp add: find_None_iff)
  with None show ?thesis
    by (auto simp: get_books_title_def Book_findOne_def)
next
  case (Some r)
  from find_first_index [OF Some] obtain j where j: "j < length st" "st ! j = r"
    "title r = Some (trim title_segment)" "\<forall>k<j. title (st ! k) \<noteq> Some (trim title_segment)"
    by blast
  have "get_books_title st title_segment = (Response 200 (OneBook (hydrate r)), st)"
    using Some by (simp add: get_books_title_def Book_findOne_def)
  with j show ?thesis by (metis nth_mem)
qed

text \<open>
  The segment \<^verbatim>\<open>" Dune "\<close> finds the document titled \<^verbatim>\<open>"Dune"\<close>, which is stored
  without \<^verbatim>\<open>available\<close> and answered with the default; \<^verbatim>\<open>"Emma"\<close> finds none.
\<close>

theorem title_lookup_first_match_witness:
  "title book_1965 = Some (trim '' Dune '')
   \<and> get_books_title [book_1988, book_1965] '' Dune ''
       = (Response 200 (OneBook (book_1965\<lparr>available := Some (Flag True)\<rparr>)),
          [book_1988, book_1965])
   \<and> title book_1988 \<noteq> Some (trim ''Emma'') \<and> title book_1965 \<noteq> Some (trim ''Emma'')
   \<and> get_books_title [book_1988, book_1965] ''Emma''
       = (Response 404 (Message ''Book not found''), [book_1988, book_1965])"
  using title_lookup_first_match [of "[book_1988, book_1965]" "'' Dune ''"]
    title_lookup_first_match [of "[book_1988, book_1965]" "''Emma''"]
  by (simp add: trim_def is_ws_def book_1988_def book_1965_def get_books_title_def
      Book_findOne_def hydrate_def)

text \<open>
  C4 as stated asks for 404 whenever no stored document has exactly the segment as its
  title. No document is titled \<^verbatim>\<open>" Dune"\<close> with its leading space, yet the answer is 200
  with the document titled \<^verbatim>\<open>"Dune"\<close>.
\<close>

theorem title_lookup_exact_counterexample:
  "title book_1965 \<noteq> Some '' Dune''
   \<and> get_books_title [book_1965] '' Dune''
       = (Response 200 (OneBook (book_1965\<lparr>available := Some (Flag True)\<rparr>)), [book_1965])"
  by (simp add: trim_def is_ws_def book_1965_def get_books_title_def Book_findOne_def
      hydrate_def)

subsection \<open>Deleting by an identifier\<close>

lemma castObjectId_unknown:
  "castObjectId ''64B7F0A1C2D3E4F5A6B7C8FF'' = Some ''64b7f0a1c2d3e4f5a6b7c8ff''"
  by (simp add: castObjectId_def is_digit_def digit_val_def lower_hex_def Let_def)

text \<open>
  C5, as amended. \<^verbatim>\<open>DELETE /books/:id\<close> with a well-formed identifier (24 hexadecimal
  digits) that no stored document carries is not an error: the answer is 200 with
  \<^verbatim>\<open>deletedCount = 0\<close> and the collection is unchanged. With an identifier that is not
  well-formed the cast of the filter fails: the answer is 500 with the route's error body,
  and the collection is unchanged.
\<close>

theorem delete_unknown_id:
  "(castObjectId id_segment = Some i \<and> (\<forall>r\<in>set st. oid r \<noteq> i)
      \<longrightarrow> delete_books_id st id_segment = (Response 200 (DeleteResult 0), st))
   \<and> (castObjectId id_segment = None
      \<longrightarrow> delete_books_id st id_segment = (Response 500 (Error ''Error deleting book''), st))"
proof (intro conjI impI)
  assume h: "castObjectId id_segment = Some i \<and> (\<forall>r\<in>set st. oid r \<noteq> i)"
  then have "find (\<lambda>r. oid r = i) st = None"
    by (simp add: find_None_iff)
  with h show "delete_books_id st id_segment = (Response 200 (DeleteResult 0), st)"
    by (simp add: delete_books_id_def Book_deleteOne_def)
next
  assume "castObjectId id_segment = None"
  then show "delete_books_id st id_segment = (Response 500 (Error ''Error deleting book''), st)"
    by (simp add: delete_books_id_def Book_deleteOne_def)
qed

theorem delete_unknown_id_witness:
  "castObjectId ''64B7F0A1C2D3E4F5A6B7C8FF'' = Some ''64b7f0a1c2d3e4f5a6b7c8ff''
   \<and> oid book_1988 \<noteq> ''64b7f0a1c2d3e4f5a6b7c8ff'' \<and> oid book_1965 \<noteq> ''64b7f0a1c2d3e4f5a6b7c8ff''
   \<and> delete_books_id [book_1988, book_1965] ''64B7F0A1C2D3E4F5A6B7C8FF''
       = (Response 200 (DeleteResult 0), [book_1988, book_1965])
   \<and> castObjectId ''64b7f0a1c2d3e4f5a6b7c8'' = None
   \<and> delete_books_id [book_1988, book_1965] ''64b7f0a1c2d3e4f5a6b7c8''
       = (Response 500 (Error ''Error deleting book''), [book_1988, book_1965])"
proof -
  have short: "castObjectId ''64b7f0a1c2d3e4f5a6b7c8'' = None"
    by (simp add: castObjectId_def)
  from delete_unknown_id [of "''64B7F0A1C2D3E4F5A6B7C8FF''" "''64b7f0a1c2d3e4f5a6b7c8ff''"
      "[book_1988, book_1965]"]
    delete_unknown_id [of "''64b7f0a1c2d3e4f5a6b7c8''" "''64b7f0a1c2d3e4f5a6b7c8ff''"
      "[book_1988, book_1965]"]
    castObjectId_unknown short
  show ?thesis
    by (simp add: book_1988_def book_1965_def)
qed

text \<open>
  C5 as stated covers every identifier that matches no stored document. The identifier
  \<^verbatim>\<open>abc\<close> matches none, and the answer is 500: the cast of the filter to an ObjectId
  fails and the route's \<^verbatim>\<open>catch\<close> answers.
\<close>

theorem delete_malformed_id_counterexample:
  "oid book_1965 \<noteq> ''abc''
   \<and> delete_books_id [book_1965] ''abc'' = (Response 500 (Error ''Error deleting book''), [book_1965])"
  by (simp add: delete_books_id_def Book_deleteOne_def castObjectId_def book_1965_def)

subsection \<open>Creating a book\<close>

lemma required_String_Undefined: "required_String Undefined = Inl ValidationError"
  by (simp add: required_String_def set_String_trim_def)

lemma required_Number_Undefined: "required_Number Undefined = Inl ValidationError"
  by (simp add: required_Number_def)

lemma required_String_error: "required_String v = Inl e \<Longrightarrow> e = ValidationError"
  by (auto simp: required_String_def split: cast.splits if_splits)

lemma required_Number_error: "required_Number v = Inl e \<Longrightarrow> e = ValidationError"
  by (auto simp: required_Number_def split: cast.splits)

lemma default_true_Boolean_error: "default_true_Boolean v = Inl e \<Longrightarrow> e = ValidationError"
  by (auto simp: default_true_Boolean_def split: cast.splits if_splits)

lemma default_true_Boolean_Undefined: "default_true_Boolean Undefined = Inr (Flag True)"
  by (simp add: default_true_Boolean_def)

lemma required_String_trimmed: "required_String v = Inr t \<Longrightarrow> trim t = t"
  by (auto simp: required_String_def set_String_trim_def trim_trim
      split: cast.splits if_splits)

lemma new_document_literal:
  "new_document now nid
     [(''title'', t), (''author'', a), (''genre'', g), (''publicationYear'', y), (''available'', av)]
   = (case required_String t of
        Inl e \<Rightarrow> Inl e
      | Inr t' \<Rightarrow>
     (case required_String a of
        Inl e \<Rightarrow> Inl e
      | Inr a' \<Rightarrow>
     (case required_String g of
        Inl e \<Rightarrow> Inl e
      | Inr g' \<Rightarrow>
     (case required_Number y of
        Inl e \<Rightarrow> Inl e
      | Inr y' \<Rightarrow>
     (case default_true_Boolean av of
        Inl e \<Rightarrow> Inl e
      | Inr av' \<Rightarrow>
          Inr \<lparr>oid = nid, title = Some t', author = Some a', genre = Some g',
               publicationYear = Some y', available = Some av',
               createdAt = Some now, updatedAt = Some now\<rparr>)))))"
  by (simp add: new_document_def get_prop_def split: sum.splits)

lemma new_document_literal_error:
  assumes "new_document now nid
     [(''title'', t), (''author'', a), (''genre'', g), (''publicationYear'', y), (''available'', av)]
     = Inl e"
  shows "e = ValidationError"
  using assms unfolding new_document_literal
  by (auto split: sum.splits
      dest: required_String_error required_Number_error default_true_Boolean_error)

lemma new_document_literal_missing:
  assumes "t = Undefined \<or> a = Undefined \<or> g = Undefined \<or> y = Undefined"
  shows "new_document now nid
     [(''title'', t), (''author'', a), (''genre'', g), (''publicationYear'', y), (''available'', av)]
     \<noteq> Inr b"
  using assms unfolding new_document_literal
  by (auto simp: required_String_Undefined required_Number_Undefined split: sum.splits)

lemma post_books_cases:
  "post_books now nid st body =
     (case new_document now nid
             [(''title'', get_prop body ''title''), (''author'', get_prop body ''author''),
              (''genre'', get_prop body ''genre''),
              (''publicationYear'', get_prop body ''publicationYear''),
              (''available'', get_prop body ''available'')] of
        Inl e \<Rightarrow> (Response 500 (Error ''Error adding book''), st)
      | Inr b \<Rightarrow>
          if nid \<in> oid ` set st then (Response 500 (Error ''Error adding book''), st)
          else (Response 201 (NewBook ''New book added'' b), st @ [b]))"
  by (simp add: post_books_def Book_create_def Let_def split: sum.splits)

lemma post_books_valid:
  assumes "required_String (get_prop body ''title'') = Inr t"
      and "required_String (get_prop body ''author'') = Inr a"
      and "required_String (get_prop body ''genre'') = Inr g"
      and "required_Number (get_prop body ''publicationYear'') = Inr y"
      and "default_true_Boolean (get_prop body ''available'') = Inr av"
      and "nid \<notin> oid ` set st"
  shows "post_books now nid st body =
           (Response 201 (NewBook ''New book added''
              \<lparr>oid = nid, title = Some t, author = Some a, genre = Some g,
               publicationYear = Some y, available = Some av,
               createdAt = Some now, updatedAt = Some now\<rparr>),
            st @ [\<lparr>oid = nid, title = Some t, author = Some a, genre = Some g,
               publicationYear = Some y, available = Some av,
               createdAt = Some now, updatedAt = Some now\<rparr>])"
  using assms by (simp add: post_books_cases new_document_literal)

text \<open>
  C6. \<^verbatim>\<open>POST /books\<close> with a body that lacks title, author, genre or publicationYear:
  \<^verbatim>\<open>Book.create\<close> rejects the object with a validation error, the route answers 500
  with its error body, and the collection is unchanged.
\<close>

theorem create_missing_required_field:
  assumes "k \<in> {''title'', ''author'', ''genre'', ''publicationYear''}"
      and "map_of body k = None"
  shows "Book_create now nid
           [(''title'', get_prop body ''title''), (''author'', get_prop body ''author''),
            (''genre'', get_prop body ''genre''),
            (''publicationYear'', get_prop body ''publicationYear''),
            (''available'', get_prop body ''available'')] st = Inl ValidationError
         \<and> post_books now nid st body = (Response 500 (Error ''Error adding book''), st)"
proof -
  let ?obj = "[(''title'', get_prop body ''title''), (''author'', get_prop body ''author''),
           (''genre'', get_prop body ''genre''),
           (''publicationYear'', get_prop body ''publicationYear''),
           (''available'', get_prop body ''available'')]"
  have u: "get_prop body k = Undefined"
    using assms(2) by (simp add: get_prop_def)
  with assms(1) have "get_prop body ''title'' = Undefined \<or> get_prop body ''author'' = Undefined
      \<or> get_prop body ''genre'' = Undefined \<or> get_prop body ''publicationYear'' = Undefined"
    by auto
  from new_document_literal_missing [OF this]
  obtain e where "new_document now nid ?obj = Inl e"
    by (cases "new_document now nid ?obj") auto
  with new_document_literal_error [OF this]
  have "new_document now nid ?obj = Inl ValidationError" by simp
  then show ?thesis
    by (simp add: post_books_def Book_create_def Let_def)
qed

theorem create_missing_required_field_witness:
  "map_of [(''title'', Str ''Emma''), (''genre'', Str ''Novel''), (''publicationYear'', Num (Finite 1815))]
      ''author'' = None
   \<and> post_books 1000 ''64b7f0a1c2d3e4f5a6b7c8aa'' [book_1965]
        [(''title'', Str ''Emma''), (''genre'', Str ''Novel''), (''publicationYear'', Num (Finite 1815))]
       = (Response 500 (Error ''Error adding book''), [book_1965])"
  using create_missing_required_field [of "''author''"
      "[(''title'', Str ''Emma''), (''genre'', Str ''Novel''), (''publicationYear'', Num (Finite 1815))]"
      1000 "''64b7f0a1c2d3e4f5a6b7c8aa''" "[book_1965]"]
  by simp

text \<open>
  C7. \<^verbatim>\<open>POST /books\<close> with a body that has no \<^verbatim>\<open>available\<close>: either the request is
  refused (500, nothing stored) or the document appended to the collection has
  \<^verbatim>\<open>available = true\<close>. When the required values pass the schema's validation and the
  generated identifier is new, the request is not refused: the answer is 201 and the
  stored document has the validated values, \<^verbatim>\<open>available = true\<close> and both timestamps.
\<close>

theorem create_default_available:
  assumes "map_of body ''available'' = None"
  shows "(post_books now nid st body = (Response 500 (Error ''Error adding book''), st)
          \<or> (\<exists>b. post_books now nid st body
                   = (Response 201 (NewBook ''New book added'' b), st @ [b])
                 \<and> available b = Some (Flag True)))
       \<and> (required_String (get_prop body ''title'') = Inr t
            \<and> required_String (get_prop body ''author'') = Inr a
            \<and> required_String (get_prop body ''genre'') = Inr g
            \<and> required_Number (get_prop body ''publicationYear'') = Inr y
            \<and> nid \<notin> oid ` set st
          \<longrightarrow> post_books now nid st body
                = (Response 201 (NewBook ''New book added''
                     \<lparr>oid = nid, title = Some t, author = Some a, genre = Some g,
                      publicationYear = Some y, available = Some (Flag True),
                      createdAt = Some now, updatedAt = Some now\<rparr>),
                   st @ [\<lparr>oid = nid, title = Some t, author = Some a, genre = Some g,
                      publicationYear = Some y, available = Some (Flag True),
                      createdAt = Some now, updatedAt = Some now\<rparr>]))"
proof -
  have av: "default_true_Boolean (get_prop body ''available'') = Inr (Flag True)"
    using assms by (simp add: get_prop_def default_true_Boolean_Undefined)
  have first: "post_books now nid st body = (Response 500 (Error ''Error adding book''), st)
          \<or> (\<exists>b. post_books now nid st body
                   = (Response 201 (NewBook ''New book added'' b), st @ [b])
                 \<and> available b = Some (Flag True))"
    unfolding post_books_cases new_document_literal
    by (auto simp: av split: sum.splits)
  show ?thesis
    using first post_books_valid [OF _ _ _ _ av] by blast
qed

theorem create_default_available_witness:
  "map_of [(''title'', Str ''  Emma ''), (''author'', Str ''Jane Austen''),
           (''genre'', Str ''Novel''), (''publicationYear'', Str ''1815'')] ''available'' = None
   \<and> post_books 1000 ''64b7f0a1c2d3e4f5a6b7c8aa'' [book_1965]
        [(''title'', Str ''  Emma ''), (''author'', Str ''Jane Austen''),
         (''genre'', Str ''Novel''), (''publicationYear'', Str ''1815'')]
      = (Response 201 (NewBook ''New book added''
           \<lparr>oid = ''64b7f0a1c2d3e4f5a6b7c8aa'', title = Some ''Emma'',
            author = Some ''Jane Austen'', genre = Some ''Novel'',
            publicationYear = Some (Finite 1815), available = Some (Flag True),
            createdAt = Some 1000, updatedAt = Some 1000\<rparr>),
         [book_1965,
          \<lparr>oid = ''64b7f0a1c2d3e4f5a6b7c8aa'', title = Some ''Emma'',
            author = Some ''Jane Austen'', genre = Some ''Novel'',
            publicationYear = Some (Finite 1815), available = Some (Flag True),
            createdAt = Some 1000, updatedAt = Some 1000\<rparr>])"
proof -
  let ?body = "[(''title'', Str ''  Emma ''), (''author'', Str ''Jane Austen''),
           (''genre'', Str ''Novel''), (''publicationYear'', Str ''1815'')]"
  have t: "required_String (get_prop ?body ''title'') = Inr ''Emma''"
    by (simp add: get_prop_def required_String_def set_String_trim_def trim_def is_ws_def)
  have a: "required_String (get_prop ?body ''author'') = Inr ''Jane Austen''"
    by (simp add: get_prop_def required_String_def set_String_trim_def trim_def is_ws_def)
  have g: "required_String (get_prop ?body ''genre'') = Inr ''Novel''"
    by (simp add: get_prop_def required_String_def set_String_trim_def trim_def is_ws_def)
  have "StringToNumber ''1815'' = Finite 1815"
    by (simp add: StringToNumber_def unsigned_decimal_def all_digits_def trim_def is_ws_def
        is_digit_def digit_val_def digits_value_def pow10_def Let_def to_double_def
        round_positive_def floor_log2_def pow2_def round_half_even_def)
  then have y: "required_Number (get_prop ?body ''publicationYear'') = Inr (Finite 1815)"
    by (simp add: get_prop_def required_Number_def)
  have n: "''64b7f0a1c2d3e4f5a6b7c8aa'' \<notin> oid ` set [book_1965]"
    by (simp add: book_1965_def)
  have m: "map_of ?body ''available'' = None" by simp
  from create_default_available [OF m, of 1000 "''64b7f0a1c2d3e4f5a6b7c8aa''" "[book_1965]"
      "''Emma''" "''Jane Austen''" "''Novel''" "Finite 1815"] t a g y n m
  show ?thesis by simp
qed

subsection \<open>Creating a book and fetching it by its title\<close>

text \<open>
  C9, as amended. A body whose required values pass validation is posted with a new
  identifier, to a collection in which no document has the title being stored. Then the
  answer is 201 with the created document, and \<^verbatim>\<open>GET /books/title/:title\<close> with the
  stored title answers 200 with that same document: its title, author, genre,
  publicationYear and available are the ones stored at creation and its identifier is the
  generated one.
\<close>

theorem create_then_fetch_by_title:
  assumes "required_String (get_prop body ''title'') = Inr t"
      and "required_String (get_prop body ''author'') = Inr a"
      and "required_String (get_prop body ''genre'') = Inr g"
      and "required_Number (get_prop body ''publicationYear'') = Inr y"
      and "default_true_Boolean (get_prop body ''available'') = Inr av"
      and "nid \<notin> oid ` set st"
      and "\<forall>r\<in>set st. title r \<noteq> Some t"
  shows "\<exists>b. post_books now nid st body
               = (Response 201 (NewBook ''New book added'' b), st @ [b])
             \<and> get_books_title (st @ [b]) t = (Response 200 (OneBook b), st @ [b])
             \<and> oid b = nid \<and> title b = Some t \<and> author b = Some a \<and> genre b = Some g
             \<and> publicationYear b = Some y \<and> available b = Some av"
proof -
  let ?b = "\<lparr>oid = nid, title = Some t, author = Some a, genre = Some g,
             publicationYear = Some y, available = Some av,
             createdAt = Some now, updatedAt = Some now\<rparr>"
  have created: "post_books now nid st body
                  = (Response 201 (NewBook ''New book added'' ?b), st @ [?b])"
    using assms(1-6) by (rule post_books_valid)
  have t: "trim t = t"
    using assms(1) by (rule required_String_trimmed)
  have "find (\<lambda>r. title r = Some (trim t)) (st @ [?b]) = Some ?b"
    using assms(7) by (intro find_append_last) (simp_all add: t)
  then have "get_books_title (st @ [?b]) t = (Response 200 (OneBook ?b), st @ [?b])"
    by (simp add: get_books_title_def Book_findOne_def hydrate_def)
  with created show ?thesis
    by (intro exI [of _ ?b]) simp
qed

theorem create_then_fetch_by_title_witness:
  "post_books 1000 ''64b7f0a1c2d3e4f5a6b7c8aa'' [book_1965]
        [(''title'', Str ''Emma''), (''author'', Str ''Jane Austen''),
         (''genre'', Str ''Novel''), (''publicationYear'', Num (Finite 1815)), (''available'', Bool False)]
      = (Response 201 (NewBook ''New book added''
           \<lparr>oid = ''64b7f0a1c2d3e4f5a6b7c8aa'', title = Some ''Emma'',
            author = Some ''Jane Austen'', genre = Some ''Novel'',
            publicationYear = Some (Finite 1815), available = Some (Flag False),
            createdAt = Some 1000, updatedAt = Some 1000\<rparr>),
         [book_1965,
          \<lparr>oid = ''64b7f0a1c2d3e4f5a6b7c8aa'', title = Some ''Emma'',
            author = Some ''Jane Austen'', genre = Some ''Novel'',
            publicationYear = Some (Finite 1815), available = Some (Flag False),
            createdAt = Some 1000, updatedAt = Some 1000\<rparr>])
   \<and> get_books_title
        [book_1965,
          \<lparr>oid = ''64b7f0a1c2d3e4f5a6b7c8aa'', title = Some ''Emma'',
            author = Some ''Jane Austen'', genre = Some ''Novel'',
            publicationYear = Some (Finite 1815), available = Some (Flag False),
            createdAt = Some 1000, updatedAt = Some 1000\<rparr>] ''Emma''
      = (Response 200 (OneBook
           \<lparr>oid = ''64b7f0a1c2d3e4f5a6b7c8aa'', title = Some ''Emma'',
            author = Some ''Jane Austen'', genre = Some ''Novel'',
            publicationYear = Some (Finite 1815), available = Some (Flag False),
            createdAt = Some 1000, updatedAt = Some 1000\<rparr>),
         [book_1965,
          \<lparr>oid = ''64b7f0a1c2d3e4f5a6b7c8aa'', title = Some ''Emma'',
            author = Some ''Jane Austen'', genre = Some ''Novel'',
            publicationYear = Some (Finite 1815), available = Some (Flag False),
            createdAt = Some 1000, updatedAt = Some 1000\<rparr>])"
proof -
  let ?body = "[(''title'', Str ''Emma''), (''author'', Str ''Jane Austen''),
         (''genre'', Str ''Novel''), (''publicationYear'', Num (Finite 1815)), (''available'', Bool False)]"
  have t: "required_String (get_prop ?body ''title'') = Inr ''Emma''"
    by (simp add: get_prop_def required_String_def set_String_trim_def trim_def is_ws_def)
  have a: "required_String (get_prop ?body ''author'') = Inr ''Jane Austen''"
    by (simp add: get_prop_def required_String_def set_String_trim_def trim_def is_ws_def)
  have g: "required_String (get_prop ?body ''genre'') = Inr ''Novel''"
    by (simp add: get_prop_def required_String_def set_String_trim_def trim_def is_ws_def)
  have y: "required_Number (get_prop ?body ''publicationYear'') = Inr (Finite 1815)"
    by (simp add: get_prop_def required_Number_def)
  have av: "default_true_Boolean (get_prop ?body ''available'') = Inr (Flag False)"
    by (simp add: get_prop_def default_true_Boolean_def)
  have n: "''64b7f0a1c2d3e4f5a6b7c8aa'' \<notin> oid ` set [book_1965]"
    by (simp add: book_1965_def)
  have d: "\<forall>r\<in>set [book_1965]. title r \<noteq> Some ''Emma''"
    by (simp add: book_1965_def)
  have created: "post_books 1000 ''64b7f0a1c2d3e4f5a6b7c8aa'' [book_1965] ?body
      = (Response 201 (NewBook ''New book added''
           \<lparr>oid = ''64b7f0a1c2d3e4f5a6b7c8aa'', title = Some ''Emma'',
            author = Some ''Jane Austen'', genre = Some ''Novel'',
            publicationYear = Some (Finite 1815), available = Some (Flag False),
            createdAt = Some 1000, updatedAt = Some 1000\<rparr>),
         [book_1965,
          \<lparr>oid = ''64b7f0a1c2d3e4f5a6b7c8aa'', title = Some ''Emma'',
            author = Some ''Jane Austen'', genre = Some ''Novel'',
            publicationYear = Some (Finite 1815), available = Some (Flag False),
            createdAt = Some 1000, updatedAt = Some 1000\<rparr>])"
    using t a g y av n by (simp add: post_books_cases new_document_literal)
  from create_then_fetch_by_title [OF t a g y av n d, of 1000] created
  show ?thesis by auto
qed

text \<open>
  C9 as stated has no condition on the collection. With a document titled \<^verbatim>\<open>"Dune"\<close>
  already stored, a second \<^verbatim>\<open>"Dune"\<close> is created, and the lookup by that title returns
  the older document (hydrated), with another author and another identifier: the lookup
  takes the first match and titles are not unique.
\<close>

theorem create_then_fetch_duplicate_title_counterexample:
  "post_books 1000 ''64b7f0a1c2d3e4f5a6b7c8aa'' [book_1965]
        [(''title'', Str ''Dune''), (''author'', Str ''David Lynch''),
         (''genre'', Str ''Screenplay''), (''publicationYear'', Num (Finite 1984))]
      = (Response 201 (NewBook ''New book added''
           \<lparr>oid = ''64b7f0a1c2d3e4f5a6b7c8aa'', title = Some ''Dune'',
            author = Some ''David Lynch'', genre = Some ''Screenplay'',
            publicationYear = Some (Finite 1984), available = Some (Flag True),
            createdAt = Some 1000, updatedAt = Some 1000\<rparr>),
         [book_1965,
          \<lparr>oid = ''64b7f0a1c2d3e4f5a6b7c8aa'', title = Some ''Dune'',
            author = Some ''David Lynch'', genre = Some ''Screenplay'',
            publicationYear = Some (Finite 1984), available = Some (Flag True),
            createdAt = Some 1000, updatedAt = Some 1000\<rparr>])
   \<and> get_books_title
        [book_1965,
          \<lparr>oid = ''64b7f0a1c2d3e4f5a6b7c8aa'', title = Some ''Dune'',
            author = Some ''David Lynch'', genre = Some ''Screenplay'',
            publicationYear = Some (Finite 1984), available = Some (Flag True),
            createdAt = Some 1000, updatedAt = Some 1000\<rparr>] ''Dune''
      = (Response 200 (OneBook (book_1965\<lparr>available := Some (Flag True)\<rparr>)),
         [book_1965,
          \<lparr>oid = ''64b7f0a1c2d3e4f5a6b7c8aa'', title = Some ''Dune'',
            author = Some ''David Lynch'', genre = Some ''Screenplay'',
            publicationYear = Some (Finite 1984), available = Some (Flag True),
            createdAt = Some 1000, updatedAt = Some 1000\<rparr>])
   \<and> author book_1965 = Some ''Frank Herbert''
   \<and> oid book_1965 \<noteq> ''64b7f0a1c2d3e4f5a6b7c8aa''"
  by (simp add: post_books_cases new_document_literal get_prop_def required_String_def
      required_Number_def default_true_Boolean_def set_String_trim_def trim_def is_ws_def
      get_books_title_def Book_findOne_def hydrate_def book_1965_def)

subsection \<open>Facts about casting an update\<close>

lemma set_path_frame:
  "set_path k v = Inr f \<Longrightarrow>
     oid (f r) = oid r \<and> createdAt (f r) = createdAt r \<and> updatedAt (f r) = updatedAt r"
  by (auto simp: set_path_def split: if_splits cast.splits)

lemma castUpdate_frame:
  "castUpdate kvs = Inr f \<Longrightarrow>
     oid (f r) = oid r \<and> createdAt (f r) = createdAt r \<and> updatedAt (f r) = updatedAt r"
proof (induction kvs arbitrary: f r)
  case Nil
  then show ?case by auto
next
  case (Cons kv kvs)
  obtain k v where kv: "kv = (k, v)" by (cases kv)
  from Cons.prems kv obtain f1 g where f1: "set_path k v = Inr f1"
    and g: "castUpdate kvs = Inr g" and f: "f = (\<lambda>r. g (f1 r))"
    by (auto split: sum.splits)
  from Cons.IH [OF g, of "f1 r"] set_path_frame [OF f1, of r] f show ?case by simp
qed














subsection \<open>Updating a book\<close>





lemma set_path_simps:
  "set_path ''title'' v =
     (case set_String_trim v of
        CastFail \<Rightarrow> Inl CastError
      | Nullish \<Rightarrow> Inr (\<lambda>r. r\<lparr>title := None\<rparr>)
      | Cast s \<Rightarrow> Inr (\<lambda>r. r\<lparr>title := Some s\<rparr>))"
  "set_path ''author'' v =
     (case set_String_trim v of
        CastFail \<Rightarrow> Inl CastError
      | Nullish \<Rightarrow> Inr (\<lambda>r. r\<lparr>author := None\<rparr>)
      | Cast s \<Rightarrow> Inr (\<lambda>r. r\<lparr>author := Some s\<rparr>))"
  "set_path ''genre'' v =
     (case set_String_trim v of
        CastFail \<Rightarrow> Inl CastError
      | Nullish \<Rightarrow> Inr (\<lambda>r. r\<lparr>genre := None\<rparr>)
      | Cast s \<Rightarrow> Inr (\<lambda>r. r\<lparr>genre := Some s\<rparr>))"
  "set_path ''publicationYear'' v =
     (case castNumber v of
        CastFail \<Rightarrow> Inl CastError
      | Nullish \<Rightarrow> Inr (\<lambda>r. r\<lparr>publicationYear := None\<rparr>)
      | Cast n \<Rightarrow> Inr (\<lambda>r. r\<lparr>publicationYear := Some n\<rparr>))"
  "set_path ''available'' v =
     (case castBoolean v of
        CastFail \<Rightarrow> Inl CastError
      | Nullish \<Rightarrow> Inr (\<lambda>r. r\<lparr>available := Some NullFlag\<rparr>)
      | Cast b \<Rightarrow> Inr (\<lambda>r. r\<lparr>available := Some (Flag b)\<rparr>))"
  "k \<notin> {''title'', ''author'', ''genre'', ''publicationYear'', ''available''} \<Longrightarrow>
     set_path k v = Inr (\<lambda>r. r)"
  by (simp_all add: set_path_def)




lemma put_books_id_applied:
  assumes "castObjectId id_segment = Some i"
      and "find (\<lambda>r. oid r = i) st = Some r"
      and "castUpdate (put_set body) = Inr f"
  shows "\<exists>j<length st. st ! j = r \<and> (\<forall>k<j. oid (st ! k) \<noteq> i)
           \<and> put_books_id now st id_segment body
               = (Response 200
                    (UpdateResult 1 (if (f r)\<lparr>updatedAt := Some now\<rparr> = r then 0 else 1)),
                  st[j := (f r)\<lparr>updatedAt := Some now\<rparr>])"
proof -
  from find_first_index [OF assms(2), of "applyTimestampsToUpdate now f"]
  obtain j where j: "j < length st" "st ! j = r" "\<forall>k<j. oid (st ! k) \<noteq> i"
    "update_first (\<lambda>r. oid r = i) (applyTimestampsToUpdate now f) st
       = st[j := applyTimestampsToUpdate now f r]"
    by blast
  have "put_books_id now st id_segment body
          = (Response 200
               (UpdateResult 1 (if (f r)\<lparr>updatedAt := Some now\<rparr> = r then 0 else 1)),
             st[j := (f r)\<lparr>updatedAt := Some now\<rparr>])"
    using assms j(4)
    by (simp add: put_books_id_def Book_updateOne_def applyTimestampsToUpdate_def Let_def)
  with j show ?thesis by blast
qed




lemma castObjectId_book_1965:
  "castObjectId ''64b7f0a1c2d3e4f5a6b7c803'' = Some ''64b7f0a1c2d3e4f5a6b7c803''"
  by (simp add: castObjectId_def is_digit_def digit_val_def lower_hex_def Let_def)

lemma find_book_1965:
  "find (\<lambda>r. oid r = ''64b7f0a1c2d3e4f5a6b7c803'') [book_1988, book_1965] = Some book_1965"
  by (simp add: book_1988_def book_1965_def)




text \<open>
  C8, as amended. \<^verbatim>\<open>PUT /books/:id\<close> for a stored document, with a body that has a
  truthy genre whose cast succeeds and has none of title, author, publicationYear and
  available: the answer is 200 with \<^verbatim>\<open>matchedCount = 1\<close>, and the matched document
  becomes the old one with its genre replaced by the supplied value as the schema stores
  it (cast to a text and trimmed; for a text, the trimmed text) and \<^verbatim>\<open>updatedAt\<close> set
  to the time of the update. Its title, author, publicationYear and available, its
  identifier and \<^verbatim>\<open>createdAt\<close> are unchanged, and so is every other document.
\<close>

theorem put_genre_only:
  assumes "castObjectId id_segment = Some i"
      and "find (\<lambda>r. oid r = i) st = Some r"
      and "\<forall>k\<in>{''title'', ''author'', ''publicationYear'', ''available''}. map_of body k = None"
      and "truthy (get_prop body ''genre'')"
      and "set_String_trim (get_prop body ''genre'') = Cast g"
  shows "(\<exists>j<length st. st ! j = r
           \<and> put_books_id now st id_segment body
               = (Response 200
                    (UpdateResult 1
                       (if r\<lparr>genre := Some g, updatedAt := Some now\<rparr> = r then 0 else 1)),
                  st[j := r\<lparr>genre := Some g, updatedAt := Some now\<rparr>]))
         \<and> (\<forall>s. get_prop body ''genre'' = Str s \<longrightarrow> g = trim s)"
proof -
  have "put_set body = [(''genre'', get_prop body ''genre'')]"
    using assms(3,4) by (simp add: put_set_def spread_if_def get_prop_def)
  then have f: "castUpdate (put_set body) = Inr (\<lambda>r. r\<lparr>genre := Some g\<rparr>)"
    using assms(5) by (simp add: set_path_simps)
  from put_books_id_applied [OF assms(1,2) f, of now]
  have "\<exists>j<length st. st ! j = r
           \<and> put_books_id now st id_segment body
               = (Response 200
                    (UpdateResult 1
                       (if r\<lparr>genre := Some g, updatedAt := Some now\<rparr> = r then 0 else 1)),
                  st[j := r\<lparr>genre := Some g, updatedAt := Some now\<rparr>])"
    by blast
  moreover have "\<forall>s. get_prop body ''genre'' = Str s \<longrightarrow> g = trim s"
    using assms(5) by (auto simp: set_String_trim_def)
  ultimately show ?thesis ..
qed

theorem put_genre_only_witness:
  "castObjectId ''64b7f0a1c2d3e4f5a6b7c803'' = Some ''64b7f0a1c2d3e4f5a6b7c803''
   \<and> find (\<lambda>r. oid r = ''64b7f0a1c2d3e4f5a6b7c803'') [book_1988, book_1965] = Some book_1965
   \<and> truthy (get_prop [(''genre'', Str ''Space opera'')] ''genre'')
   \<and> set_String_trim (get_prop [(''genre'', Str ''Space opera'')] ''genre'') = Cast ''Space opera''
   \<and> put_books_id 2000 [book_1988, book_1965] ''64b7f0a1c2d3e4f5a6b7c803''
        [(''genre'', Str ''Space opera'')]
      = (Response 200 (UpdateResult 1 1),
         [book_1988, book_1965\<lparr>genre := Some ''Space opera'', updatedAt := Some 2000\<rparr>])"
proof -
  let ?body = "[(''genre'', Str ''Space opera'')]"
  have none: "\<forall>k\<in>{''title'', ''author'', ''publicationYear'', ''available''}. map_of ?body k = None"
    by simp
  have t: "truthy (get_prop ?body ''genre'')"
    by (simp add: get_prop_def)
  have g: "set_String_trim (get_prop ?body ''genre'') = Cast ''Space opera''"
    by (simp add: get_prop_def set_String_trim_def trim_def is_ws_def)
  from put_genre_only [OF castObjectId_book_1965 find_book_1965 none t g, of 2000]
  obtain j where j: "j < length [book_1988, book_1965]" "[book_1988, book_1965] ! j = book_1965"
    and put: "put_books_id 2000 [book_1988, book_1965] ''64b7f0a1c2d3e4f5a6b7c803'' ?body
      = (Response 200
           (UpdateResult 1
              (if book_1965\<lparr>genre := Some ''Space opera'', updatedAt := Some 2000\<rparr> = book_1965
               then 0 else 1)),
         [book_1988, book_1965][j := book_1965\<lparr>genre := Some ''Space opera'',
                                              updatedAt := Some 2000\<rparr>])"
    by blast
  have "j = 1"
    using j by (cases j) (simp_all add: book_1988_def book_1965_def)
  moreover have "book_1965\<lparr>genre := Some ''Space opera'', updatedAt := Some 2000\<rparr> \<noteq> book_1965"
    by (simp add: book_1965_def)
  ultimately show ?thesis
    using put castObjectId_book_1965 find_book_1965 t g by simp
qed

text \<open>
  C8 as stated makes the stored genre equal to the supplied value. The supplied text
  \<^verbatim>\<open>" Space opera "\<close> is stored without its surrounding spaces.
\<close>

theorem put_genre_trimmed_counterexample:
  "truthy (get_prop [(''genre'', Str '' Space opera '')] ''genre'')
   \<and> put_books_id 2000 [book_1965] ''64b7f0a1c2d3e4f5a6b7c803''
        [(''genre'', Str '' Space opera '')]
      = (Response 200 (UpdateResult 1 1),
         [book_1965\<lparr>genre := Some ''Space opera'', updatedAt := Some 2000\<rparr>])
   \<and> ''Space opera'' \<noteq> '' Space opera ''"
proof -
  have "castUpdate (put_set [(''genre'', Str '' Space opera '')])
          = Inr (\<lambda>r. r\<lparr>genre := Some ''Space opera''\<rparr>)"
    by (simp add: put_set_def spread_if_def get_prop_def set_path_simps set_String_trim_def
        trim_def is_ws_def)
  then show ?thesis
    by (simp add: put_books_id_def Book_updateOne_def castObjectId_book_1965 get_prop_def
        applyTimestampsToUpdate_def book_1965_def)
qed


subsection \<open>What an update can write\<close>

lemma length_update_first: "length (update_first p f st) = length st"
  by (induction st) auto

lemma nth_update_first:
  "j < length st \<Longrightarrow> update_first p f st ! j = st ! j \<or> update_first p f st ! j = f (st ! j)"
proof (induction st arbitrary: j)
  case Nil
  then show ?case by simp
next
  case (Cons a st)
  then show ?case by (cases j) auto
qed

lemma same_outside_written_paths:
  fixes r r' :: book
  assumes "oid r' = oid r" and "createdAt r' = createdAt r"
  shows "\<exists>t a g y av u. r' = r\<lparr>title := t, author := a, genre := g, publicationYear := y,
                                 available := av, updatedAt := u\<rparr>"
proof -
  have "r' = r\<lparr>title := title r', author := author r', genre := genre r',
                publicationYear := publicationYear r', available := available r',
                updatedAt := updatedAt r'\<rparr>"
    using assms by (cases r, cases r') simp
  then show ?thesis by blast
qed

lemma put_books_id_outcomes:
  assumes "put_books_id now st id_segment body = (resp, st')"
  shows "st' = st
         \<or> (\<exists>i f. castUpdate (put_set body) = Inr f
               \<and> st' = update_first (\<lambda>r. oid r = i) (applyTimestampsToUpdate now f) st)"
  using assms
  by (auto simp: put_books_id_def Book_updateOne_def Let_def
      split: sum.splits option.splits)

text \<open>
  C10, as amended. \<^verbatim>\<open>PUT /books/:id\<close>. Two bodies that agree on title, author, genre,
  publicationYear and available give the same answer and the same collection, so any
  other key of a body is ignored. Whatever the request, every stored document afterwards
  differs from what it was at most in those five paths and in \<^verbatim>\<open>updatedAt\<close>, which
  the schema's \<^verbatim>\<open>timestamps\<close> option refreshes on every update. A body with no
  acceptable value (none of the four truthy, available not a boolean), sent for a stored
  document, leaves that document as it was except for \<^verbatim>\<open>updatedAt\<close>, which becomes
  the time of the update.
\<close>

theorem put_writes_only_schema_paths:
  "((\<forall>k\<in>{''title'', ''author'', ''genre'', ''publicationYear'', ''available''}.
        get_prop body k = get_prop body' k)
      \<longrightarrow> put_books_id now st id_segment body = put_books_id now st id_segment body')
   \<and> (put_books_id now st id_segment body = (resp, st')
      \<longrightarrow> length st' = length st
          \<and> (\<forall>j<length st. \<exists>t a g y av u.
                 st' ! j = (st ! j)\<lparr>title := t, author := a, genre := g, publicationYear := y,
                                    available := av, updatedAt := u\<rparr>))
   \<and> (castObjectId id_segment = Some i \<and> find (\<lambda>r. oid r = i) st = Some r
       \<and> \<not> truthy (get_prop body ''title'') \<and> \<not> truthy (get_prop body ''author'')
       \<and> \<not> truthy (get_prop body ''genre'') \<and> \<not> truthy (get_prop body ''publicationYear'')
       \<and> \<not> is_boolean (get_prop body ''available'')
      \<longrightarrow> (\<exists>j<length st. st ! j = r
             \<and> put_books_id now st id_segment body
                 = (Response 200
                      (UpdateResult 1 (if r\<lparr>updatedAt := Some now\<rparr> = r then 0 else 1)),
                    st[j := r\<lparr>updatedAt := Some now\<rparr>])))"
proof -
  have agree: "put_books_id now st id_segment body = put_books_id now st id_segment body'"
    if "\<forall>k\<in>{''title'', ''author'', ''genre'', ''publicationYear'', ''available''}.
          get_prop body k = get_prop body' k"
  proof -
    from that have "put_set body = put_set body'"
      by (simp add: put_set_def)
    then show ?thesis
      by (simp add: put_books_id_def)
  qed
  have paths: "length st' = length st
          \<and> (\<forall>j<length st. \<exists>t a g y av u.
                 st' ! j = (st ! j)\<lparr>title := t, author := a, genre := g, publicationYear := y,
                                    available := av, updatedAt := u\<rparr>)"
    if run: "put_books_id now st id_segment body = (resp, st')"
    using put_books_id_outcomes [OF run]
  proof
    assume "st' = st"
    then show ?thesis
      by (auto intro: same_outside_written_paths)
  next
    assume "\<exists>i f. castUpdate (put_set body) = Inr f
               \<and> st' = update_first (\<lambda>r. oid r = i) (applyTimestampsToUpdate now f) st"
    then obtain i f where f: "castUpdate (put_set body) = Inr f"
      and st': "st' = update_first (\<lambda>r. oid r = i) (applyTimestampsToUpdate now f) st"
      by blast
    have "\<exists>t a g y av u.
            st' ! j = (st ! j)\<lparr>title := t, author := a, genre := g, publicationYear := y,
                                available := av, updatedAt := u\<rparr>" if "j < length st" for j
    proof (rule same_outside_written_paths)
      from nth_update_first [OF that, of "\<lambda>r. oid r = i" "applyTimestampsToUpdate now f"]
      have "st' ! j = st ! j \<or> st' ! j = applyTimestampsToUpdate now f (st ! j)"
        by (simp add: st')
      with castUpdate_frame [OF f, of "st ! j"]
      show "oid (st' ! j) = oid (st ! j)" and "createdAt (st' ! j) = createdAt (st ! j)"
        by (auto simp: applyTimestampsToUpdate_def)
    qed
    then show ?thesis
      by (simp add: st' length_update_first)
  qed
  have untouched: "\<exists>j<length st. st ! j = r
             \<and> put_books_id now st id_segment body
                 = (Response 200
                      (UpdateResult 1 (if r\<lparr>updatedAt := Some now\<rparr> = r then 0 else 1)),
                    st[j := r\<lparr>updatedAt := Some now\<rparr>])"
    if h: "castObjectId id_segment = Some i \<and> find (\<lambda>r. oid r = i) st = Some r
       \<and> \<not> truthy (get_prop body ''title'') \<and> \<not> truthy (get_prop body ''author'')
       \<and> \<not> truthy (get_prop body ''genre'') \<and> \<not> truthy (get_prop body ''publicationYear'')
       \<and> \<not> is_boolean (get_prop body ''available'')"
  proof -
    from h have "put_set body = []"
      by (simp add: put_set_def spread_if_def)
    then have f: "castUpdate (put_set body) = Inr (\<lambda>r. r)"
      by simp
    from h have id: "castObjectId id_segment = Some i"
      and r: "find (\<lambda>r. oid r = i) st = Some r"
      by simp_all
    from put_books_id_applied [OF id r f, of now] show ?thesis
      by blast
  qed
  show ?thesis
    apply (rule conjI)
     apply (rule impI)
     apply (erule agree)
    apply (rule conjI)
     apply (rule impI)
     apply (erule paths)
    apply (rule impI)
    apply (erule untouched)
    done
qed

theorem put_writes_only_schema_paths_witness:
  "get_prop [(''rating'', Num (Finite 5)), (''title'', Null)] ''title'' = get_prop [(''title'', Null)] ''title''
   \<and> put_books_id 2000 [book_1988, book_1965] ''64b7f0a1c2d3e4f5a6b7c803''
        [(''rating'', Num (Finite 5)), (''title'', Null)]
      = put_books_id 2000 [book_1988, book_1965] ''64b7f0a1c2d3e4f5a6b7c803'' [(''title'', Null)]
   \<and> put_books_id 2000 [book_1988, book_1965] ''64b7f0a1c2d3e4f5a6b7c803''
        [(''rating'', Num (Finite 5)), (''title'', Null)]
      = (Response 200 (UpdateResult 1 1), [book_1988, book_1965\<lparr>updatedAt := Some 2000\<rparr>])
   \<and> castObjectId ''64b7f0a1c2d3e4f5a6b7c803'' = Some ''64b7f0a1c2d3e4f5a6b7c803''
   \<and> find (\<lambda>r. oid r = ''64b7f0a1c2d3e4f5a6b7c803'') [book_1988, book_1965] = Some book_1965
   \<and> \<not> truthy (get_prop [(''rating'', Num (Finite 5)), (''title'', Null)] ''title'')
   \<and> \<not> is_boolean (get_prop [(''rating'', Num (Finite 5)), (''title'', Null)] ''available'')"
proof -
  let ?body = "[(''rating'', Num (Finite 5)), (''title'', Null)]"
  let ?st = "[book_1988, book_1965]"
  have same: "\<forall>k\<in>{''title'', ''author'', ''genre'', ''publicationYear'', ''available''}.
                get_prop ?body k = get_prop [(''title'', Null)] k"
    by (simp add: get_prop_def)
  have none: "\<not> truthy (get_prop ?body ''title'')" "\<not> truthy (get_prop ?body ''author'')"
    "\<not> truthy (get_prop ?body ''genre'')" "\<not> truthy (get_prop ?body ''publicationYear'')"
    "\<not> is_boolean (get_prop ?body ''available'')"
    by (simp_all add: get_prop_def)
  have run: "put_books_id 2000 ?st ''64b7f0a1c2d3e4f5a6b7c803'' ?body
      = (Response 200 (UpdateResult 1 1), [book_1988, book_1965\<lparr>updatedAt := Some 2000\<rparr>])"
    by (simp add: put_books_id_def Book_updateOne_def castObjectId_book_1965 put_set_def
        spread_if_def get_prop_def applyTimestampsToUpdate_def book_1988_def book_1965_def)
  note rule = put_writes_only_schema_paths [of ?body "[(''title'', Null)]" 2000 ?st
      "''64b7f0a1c2d3e4f5a6b7c803''" "Response 200 (UpdateResult 1 1)"
      "[book_1988, book_1965\<lparr>updatedAt := Some 2000\<rparr>]" "''64b7f0a1c2d3e4f5a6b7c803''"
      book_1965]
  from rule [THEN conjunct1] same
  have eq: "put_books_id 2000 ?st ''64b7f0a1c2d3e4f5a6b7c803'' ?body
      = put_books_id 2000 ?st ''64b7f0a1c2d3e4f5a6b7c803'' [(''title'', Null)]"
    by (rule mp)
  have t: "get_prop ?body ''title'' = get_prop [(''title'', Null)] ''title''"
    by (simp add: get_prop_def)
  from t eq run castObjectId_book_1965 find_book_1965 none(1) none(5)
  show ?thesis
    by (intro conjI)
qed

text \<open>
  C10 as stated leaves the matched document entirely unchanged when the body has no
  acceptable value. With the empty body the \<^verbatim>\<open>$set\<close> object is empty, and the matched
  document still changes: its \<^verbatim>\<open>updatedAt\<close> moves from 300 to the time of the update,
  and \<^verbatim>\<open>modifiedCount\<close> is 1.
\<close>

theorem put_empty_body_touches_updatedAt_counterexample:
  "put_set [] = []
   \<and> put_books_id 2000 [book_1965] ''64b7f0a1c2d3e4f5a6b7c803'' []
      = (Response 200 (UpdateResult 1 1), [book_1965\<lparr>updatedAt := Some 2000\<rparr>])
   \<and> book_1965\<lparr>updatedAt := Some 2000\<rparr> \<noteq> book_1965"
  by (simp add: put_books_id_def Book_updateOne_def castObjectId_book_1965 put_set_def
      spread_if_def get_prop_def applyTimestampsToUpdate_def book_1965_def)

end
